theory Spec2Isabelle
  imports Main "HOL-Library.Sublist" "HOL-Library.Multiset"
begin

section \<open>The task list application: data model\<close>

text \<open>
  The component \<^verbatim>\<open>App\<close> keeps one value of type \<^verbatim>\<open>AppState\<close> in a React state hook and
  changes it only through \<^verbatim>\<open>setState(prevState => ...)\<close>. Every such updater is a pure
  function from the previous state to the next one, and is embedded here as a function on
  the record \<open>AppState\<close>.

  Two names of the source clash with constants of HOL and carry a prime: the field
  \<^verbatim>\<open>id\<close> of a task is \<open>id'\<close>, the field \<^verbatim>\<open>filter\<close> of the state is \<open>filter'\<close>. The members of
  the enum \<^verbatim>\<open>FILTER\<close> keep their qualified names (\<^verbatim>\<open>FILTER.ALL\<close> is \<open>FILTER_ALL\<close>).
  Task ids are the integer ids of the remote service.
\<close>

record Task =
  id' :: int
  title :: string
  completed :: bool

datatype FILTER = FILTER_ALL | FILTER_COMPLETED | FILTER_INCOMPLETE

record AppState =
  tasks :: "Task list"
  loading :: bool
  error :: "string option"
  refreshing :: bool
  filter' :: FILTER

text \<open>The argument of \<^verbatim>\<open>useState\<close>: the state of the first render.\<close>

definition initialState :: AppState where
  "initialState =
     \<lparr>tasks = [], loading = True, error = None, refreshing = False, filter' = FILTER_ALL\<rparr>"

section \<open>The state updaters\<close>

text \<open>The message \<^verbatim>\<open>fetchTasks\<close> stores in \<^verbatim>\<open>error\<close> from its \<^verbatim>\<open>catch\<close> block.\<close>

definition load_error_message :: string where
  "load_error_message = ''Failed to load tasks. Please try again later.''"

text \<open>The three updaters of \<^verbatim>\<open>fetchTasks\<close>: before the request, on its response, in \<^verbatim>\<open>catch\<close>.\<close>

definition fetch_start :: "AppState \<Rightarrow> AppState" where
  "fetch_start prevState = prevState\<lparr>loading := True, error := None\<rparr>"

definition fetch_success :: "Task list \<Rightarrow> AppState \<Rightarrow> AppState" where
  "fetch_success data prevState = prevState\<lparr>tasks := data, loading := False\<rparr>"

definition fetch_failure :: "AppState \<Rightarrow> AppState" where
  "fetch_failure prevState = prevState\<lparr>loading := False, error := Some load_error_message\<rparr>"

text \<open>The two updaters of \<^verbatim>\<open>loadStoredTasks\<close>: after the read, and on a stored value.\<close>

definition stored_reset :: "AppState \<Rightarrow> AppState" where
  "stored_reset prevState = prevState\<lparr>loading := False, refreshing := False\<rparr>"

definition stored_hit :: "Task list \<Rightarrow> AppState \<Rightarrow> AppState" where
  "stored_hit parsed prevState = prevState\<lparr>tasks := parsed, loading := False\<rparr>"

text \<open>The two updaters of \<^verbatim>\<open>handleRefresh\<close>.\<close>

definition refresh_start :: "AppState \<Rightarrow> AppState" where
  "refresh_start prevState = prevState\<lparr>refreshing := True\<rparr>"

definition refresh_end :: "AppState \<Rightarrow> AppState" where
  "refresh_end prevState = prevState\<lparr>refreshing := False\<rparr>"

text \<open>
  \<^verbatim>\<open>toggleComplete\<close> maps over the tasks and replaces every task whose id is \<^verbatim>\<open>taskId\<close> by a
  copy with the flag negated.
\<close>

definition toggleComplete :: "int \<Rightarrow> AppState \<Rightarrow> AppState" where
  "toggleComplete taskId prevState =
     prevState\<lparr>tasks :=
       map (\<lambda>task. if id' task = taskId then task\<lparr>completed := \<not> completed task\<rparr> else task)
         (tasks prevState)\<rparr>"

text \<open>The \<^verbatim>\<open>onPress\<close> handlers of the three filter buttons, one equation for each button.\<close>

fun onPressFilter :: "FILTER \<Rightarrow> AppState \<Rightarrow> AppState" where
  "onPressFilter FILTER_ALL prevState = prevState\<lparr>filter' := FILTER_ALL\<rparr>"
| "onPressFilter FILTER_COMPLETED prevState = prevState\<lparr>filter' := FILTER_COMPLETED\<rparr>"
| "onPressFilter FILTER_INCOMPLETE prevState = prevState\<lparr>filter' := FILTER_INCOMPLETE\<rparr>"

section \<open>The view\<close>

text \<open>\<^verbatim>\<open>filteredTasks\<close> is computed from the state on every render.\<close>

definition filteredTasks :: "AppState \<Rightarrow> Task list" where
  "filteredTasks state =
     filter (\<lambda>task.
        if filter' state = FILTER_COMPLETED then completed task
        else if filter' state = FILTER_INCOMPLETE then \<not> completed task
        else True)
       (tasks state)"

text \<open>
  The condition \<^verbatim>\<open>if (state.error)\<close> tests a value of type \<^verbatim>\<open>string | null\<close> for truthiness:
  \<^verbatim>\<open>null\<close> and the empty string are both falsy.
\<close>

definition truthy :: "string option \<Rightarrow> bool" where
  "truthy v = (case v of None \<Rightarrow> False | Some str \<Rightarrow> str \<noteq> [])"

text \<open>
  What the component returns: the spinner, the error view with the message it shows, or the
  main view, which holds either the skeleton placeholder or the list of the filtered tasks.
\<close>

datatype RenderMode = FULL_LOADING | ERROR string | SKELETON | LIST "Task list"

definition render :: "AppState \<Rightarrow> RenderMode" where
  "render state =
     (if loading state \<and> \<not> refreshing state then FULL_LOADING
      else if truthy (error state) then ERROR (the (error state))
      else if loading state \<and> refreshing state then SKELETON
      else LIST (filteredTasks state))"

section \<open>The world around the component\<close>

text \<open>
  The component talks to two services that are not part of the repository: the HTTP client
  (\<^verbatim>\<open>axios.get\<close>) and the key-value store (\<^verbatim>\<open>AsyncStorage\<close>). A world holds the React state,
  the content of the store, and the calls made so far, in the order they were made
  (\<^verbatim>\<open>console.error\<close> included).
\<close>

datatype effect =
    AxiosGet string
  | GetItem string
  | SetItem string string
  | ConsoleError string
  | ConsoleLog string

record World =
  ui :: AppState
  storage :: "string \<rightharpoonup> string"
  effects :: "effect list"

text \<open>
  How a promise of one of the services settles. The reason of a rejection is only passed to
  \<^verbatim>\<open>console.error\<close>, so it is not kept.
\<close>

datatype 'a promise = Resolved 'a | Rejected

definition tasks_url :: string where
  "tasks_url = ''https://jsonplaceholder.typicode.com/todos''"

text \<open>The failure of \<^verbatim>\<open>loadStoredTasks\<close> that its own \<^verbatim>\<open>catch\<close> does not handle (see below).\<close>

datatype failure = UpdaterThrew

section \<open>fetchTasks\<close>

text \<open>
  An \<^verbatim>\<open>async\<close> function runs in synchronous blocks separated by its \<^verbatim>\<open>await\<close>s. A trace lists
  the world after each block of one run, given how the promises it awaits settle:
  \<open>response\<close> is the outcome of \<^verbatim>\<open>axios.get\<close> (the field \<^verbatim>\<open>data\<close> of the response),
  \<open>written\<close> the outcome of \<^verbatim>\<open>AsyncStorage.setItem\<close>. \<^verbatim>\<open>JSON.stringify\<close> is a parameter.

  The call to \<^verbatim>\<open>setItem\<close> is inside the \<^verbatim>\<open>try\<close> block and awaited there, so its rejection
  reaches the same \<^verbatim>\<open>catch\<close> as a rejection of \<^verbatim>\<open>axios.get\<close>.
\<close>

definition fetchTasks_begin :: "World \<Rightarrow> World" where
  "fetchTasks_begin w =
     w\<lparr>ui := fetch_start (ui w), effects := effects w @ [AxiosGet tasks_url]\<rparr>"

definition fetchTasks_catch :: "World \<Rightarrow> World" where
  "fetchTasks_catch w =
     w\<lparr>ui := fetch_failure (ui w),
       effects := effects w @ [ConsoleError ''Error fetching tasks:'']\<rparr>"

definition fetchTasks_trace ::
    "(Task list \<Rightarrow> string) \<Rightarrow> Task list promise \<Rightarrow> unit promise \<Rightarrow> World \<Rightarrow> World list" where
  "fetchTasks_trace stringify response written w =
     (let w1 = fetchTasks_begin w in
      case response of
        Rejected \<Rightarrow> [w1, fetchTasks_catch w1]
      | Resolved data \<Rightarrow>
          (let w2 = w1\<lparr>ui := fetch_success data (ui w1),
                       effects := effects w1 @ [SetItem ''tasks'' (stringify data)]\<rparr>
           in case written of
                Resolved _ \<Rightarrow> [w1, w2, w2\<lparr>storage := (storage w2)(''tasks'' \<mapsto> stringify data)\<rparr>]
              | Rejected \<Rightarrow> [w1, w2, fetchTasks_catch w2]))"

definition fetchTasks ::
    "(Task list \<Rightarrow> string) \<Rightarrow> Task list promise \<Rightarrow> unit promise \<Rightarrow> World \<Rightarrow> World" where
  "fetchTasks stringify response written w = last (fetchTasks_trace stringify response written w)"

section \<open>handleRefresh\<close>

text \<open>
  \<^verbatim>\<open>handleRefresh\<close> calls \<^verbatim>\<open>setState\<close> and then \<^verbatim>\<open>fetchTasks\<close>, whose first \<^verbatim>\<open>setState\<close> runs in
  the same synchronous block (nothing is awaited in between): the first world of the trace
  is the one after both updaters. \<^verbatim>\<open>fetchTasks\<close> catches every rejection, so the line after
  \<^verbatim>\<open>await fetchTasks()\<close> always runs.
\<close>

definition handleRefresh_trace ::
    "(Task list \<Rightarrow> string) \<Rightarrow> Task list promise \<Rightarrow> unit promise \<Rightarrow> World \<Rightarrow> World list" where
  "handleRefresh_trace stringify response written w =
     (let tr = fetchTasks_trace stringify response written (w\<lparr>ui := refresh_start (ui w)\<rparr>);
          w' = last tr
      in tr @ [w'\<lparr>ui := refresh_end (ui w')\<rparr>])"

definition handleRefresh ::
    "(Task list \<Rightarrow> string) \<Rightarrow> Task list promise \<Rightarrow> unit promise \<Rightarrow> World \<Rightarrow> World" where
  "handleRefresh stringify response written w =
     last (handleRefresh_trace stringify response written w)"

section \<open>loadStoredTasks\<close>

text \<open>
  \<^verbatim>\<open>AsyncStorage.getItem('tasks')\<close> resolves to the stored string, or to \<^verbatim>\<open>null\<close> when the key
  was never written; \<open>readable\<close> says whether the read resolves at all.
\<close>

definition getItem :: "bool \<Rightarrow> World \<Rightarrow> string option promise" where
  "getItem readable w = (if readable then Resolved (storage w ''tasks'') else Rejected)"

text \<open>
  The effect of the \<^verbatim>\<open>useEffect\<close> hook of the first render. \<^verbatim>\<open>JSON.parse\<close> is a parameter;
  it returns \<open>None\<close> where \<^verbatim>\<open>JSON.parse\<close> throws.

  After \<^verbatim>\<open>await getItem\<close> the rest of the \<^verbatim>\<open>try\<close> block is one synchronous block: the reset
  of the two flags, and then either the updater with the stored value or the call of
  \<^verbatim>\<open>fetchTasks\<close>, which is not awaited and whose first block runs at once.

  \<^verbatim>\<open>if (storedTasks)\<close> is a truthiness test, so an empty stored string takes the \<^verbatim>\<open>else\<close>
  branch as \<^verbatim>\<open>null\<close> does. \<^verbatim>\<open>JSON.parse(storedTasks)\<close> stands inside the updater passed to
  \<^verbatim>\<open>setState\<close>: React evaluates the updater when it processes the update, not in the
  \<^verbatim>\<open>try\<close> block that made the call, so the \<^verbatim>\<open>catch\<close> of \<^verbatim>\<open>loadStoredTasks\<close> is not what
  handles a throwing \<^verbatim>\<open>JSON.parse\<close>: with a concurrent root the update is processed after the
  block has been left, and no request is sent. (Only a root that renders inside the call of
  \<^verbatim>\<open>setState\<close> throws the exception back into the block; the source does not ask for one.)
  The run ends with \<open>Inl UpdaterThrew\<close>.
\<close>

definition loadStoredTasks_trace ::
    "(string \<Rightarrow> Task list option) \<Rightarrow> (Task list \<Rightarrow> string) \<Rightarrow>
     bool \<Rightarrow> Task list promise \<Rightarrow> unit promise \<Rightarrow> World \<Rightarrow> failure + World list" where
  "loadStoredTasks_trace parse stringify readable response written w =
     (let w0 = w\<lparr>effects := effects w @ [GetItem ''tasks'']\<rparr> in
      case getItem readable w of
        Rejected \<Rightarrow>
          (let w1 = w0\<lparr>effects := effects w0 @ [ConsoleError ''Failed to load tasks from storage'']\<rparr>
           in Inr (fetchTasks_trace stringify response written w1))
      | Resolved storedTasks \<Rightarrow>
          (let w1 = w0\<lparr>ui := stored_reset (ui w0)\<rparr> in
           if truthy storedTasks then
             (case parse (the storedTasks) of
                None \<Rightarrow> Inl UpdaterThrew
              | Some parsed \<Rightarrow> Inr [w1\<lparr>ui := stored_hit parsed (ui w1)\<rparr>])
           else Inr (fetchTasks_trace stringify response written w1)))"

text \<open>The number of requests sent to the remote service so far.\<close>

definition remote_calls :: "World \<Rightarrow> nat" where
  "remote_calls w = count_list (effects w) (AxiosGet tasks_url)"

text \<open>The values handed to \<^verbatim>\<open>AsyncStorage.setItem('tasks', ...)\<close> so far, oldest first.\<close>

fun written_value :: "effect \<Rightarrow> string list" where
  "written_value (SetItem k v) = (if k = ''tasks'' then [v] else [])"
| "written_value _ = []"

definition cache_writes :: "World \<Rightarrow> string list" where
  "cache_writes w = concat (map written_value (effects w))"

text \<open>The transitions of a run that starts in \<open>w\<close>: each world of the trace with the one before it.\<close>

definition transitions :: "World \<Rightarrow> World list \<Rightarrow> (World \<times> World) list" where
  "transitions w tr = zip (w # tr) tr"

section \<open>The component of App.tsx\<close>

text \<open>
  The file \<^verbatim>\<open>App.tsx\<close> holds a second component \<^verbatim>\<open>App\<close> with the same state and the same
  updaters, and no store: its \<^verbatim>\<open>fetchTasks\<close> writes nothing, and its startup effect
  \<^verbatim>\<open>loadTasks\<close> resets the two flags and awaits \<^verbatim>\<open>fetchTasks\<close> without reading anything.
  Its \<^verbatim>\<open>fetchTasks\<close> catches every rejection, so the \<^verbatim>\<open>catch\<close> of \<^verbatim>\<open>loadTasks\<close> never runs.
\<close>

definition App_tsx_fetchTasks_trace :: "Task list promise \<Rightarrow> World \<Rightarrow> World list" where
  "App_tsx_fetchTasks_trace response w =
     (let w1 = fetchTasks_begin w in
      case response of
        Rejected \<Rightarrow> [w1, fetchTasks_catch w1]
      | Resolved data \<Rightarrow>
          [w1, w1\<lparr>ui := fetch_success data (ui w1),
                  effects := effects w1 @ [ConsoleLog ''response'']\<rparr>])"

definition loadTasks_trace :: "Task list promise \<Rightarrow> World \<Rightarrow> World list" where
  "loadTasks_trace response w =
     (let tr = App_tsx_fetchTasks_trace response (w\<lparr>ui := stored_reset (ui w)\<rparr>);
          w' = last tr
      in tr @ [w'\<lparr>effects := effects w' @ [ConsoleLog ''tasks'']\<rparr>])"

section \<open>Example values\<close>

text \<open>
  The tasks of the scenarios, a world at startup, and a serialisation defined on these tasks
  (\<^verbatim>\<open>JSON.stringify\<close> and \<^verbatim>\<open>JSON.parse\<close> are parameters of the operations above).
\<close>

definition task_milk :: Task where
  "task_milk = \<lparr>id' = 1, title = ''Buy milk'', completed = False\<rparr>"

definition task_bills :: Task where
  "task_bills = \<lparr>id' = 2, title = ''Pay bills'', completed = True\<rparr>"

definition stringify_example :: "Task list \<Rightarrow> string" where
  "stringify_example ts =
     (if ts = [task_milk] then ''[milk]'' else if ts = [task_bills] then ''[bills]'' else ''[]'')"

definition parse_example :: "string \<Rightarrow> Task list option" where
  "parse_example str =
     (if str = ''[milk]'' then Some [task_milk]
      else if str = ''[bills]'' then Some [task_bills]
      else if str = ''[]'' then Some []
      else None)"

definition startup :: World where
  "startup = \<lparr>ui = initialState, storage = Map.empty, effects = []\<rparr>"

definition startup_cached :: World where
  "startup_cached = \<lparr>ui = initialState, storage = [''tasks'' \<mapsto> ''[bills]''], effects = []\<rparr>"

definition showing_bills :: World where
  "showing_bills =
     \<lparr>ui = \<lparr>tasks = [task_bills], loading = False, error = None, refreshing = False,
             filter' = FILTER_ALL\<rparr>,
       storage = [''tasks'' \<mapsto> ''[bills]''], effects = []\<rparr>"


section \<open>The states the component can hold\<close>

text \<open>
  The state changes only through the calls of \<^verbatim>\<open>setState\<close> in the component, each with one of
  the updaters above. Whatever the order in which the operations and the user's actions
  interleave, the state is the result of applying a sequence of these updaters to the state
  of the first render.
\<close>

datatype update =
    FetchStart
  | FetchSuccess "Task list"
  | FetchFailure
  | StoredReset
  | StoredHit "Task list"
  | ToggleComplete int
  | RefreshStart
  | RefreshEnd
  | PressFilter FILTER

fun apply_update :: "update \<Rightarrow> AppState \<Rightarrow> AppState" where
  "apply_update FetchStart s = fetch_start s"
| "apply_update (FetchSuccess data) s = fetch_success data s"
| "apply_update FetchFailure s = fetch_failure s"
| "apply_update StoredReset s = stored_reset s"
| "apply_update (StoredHit parsed) s = stored_hit parsed s"
| "apply_update (ToggleComplete taskId) s = toggleComplete taskId s"
| "apply_update RefreshStart s = refresh_start s"
| "apply_update RefreshEnd s = refresh_end s"
| "apply_update (PressFilter f) s = onPressFilter f s"

primrec run_updates :: "update list \<Rightarrow> AppState \<Rightarrow> AppState" where
  "run_updates [] s = s"
| "run_updates (u # us) s = run_updates us (apply_update u s)"

section \<open>Facts about the updaters and the runs\<close>

lemmas updaters = fetch_start_def fetch_success_def fetch_failure_def stored_reset_def
  stored_hit_def refresh_start_def refresh_end_def

lemmas fetchTasks_defs = fetchTasks_def fetchTasks_trace_def fetchTasks_begin_def
  fetchTasks_catch_def

lemma load_error_message_truthy: "truthy (Some load_error_message)"
  by (simp add: truthy_def load_error_message_def)

text \<open>A run of \<^verbatim>\<open>fetchTasks\<close> in which the request and the write both succeed.\<close>

lemma fetchTasks_success:
  "ui (fetchTasks stringify (Resolved data) (Resolved u) w) =
     (ui w)\<lparr>tasks := data, loading := False, error := None\<rparr>
   \<and> storage (fetchTasks stringify (Resolved data) (Resolved u) w) =
     (storage w)(''tasks'' \<mapsto> stringify data)
   \<and> effects (fetchTasks stringify (Resolved data) (Resolved u) w) =
     effects w @ [AxiosGet tasks_url, SetItem ''tasks'' (stringify data)]"
  by (simp add: fetchTasks_defs updaters Let_def)

text \<open>A run of \<^verbatim>\<open>fetchTasks\<close> in which the request fails: the tasks stay, nothing is written.\<close>

lemma fetchTasks_request_failure:
  "ui (fetchTasks stringify Rejected written w) =
     (ui w)\<lparr>loading := False, error := Some load_error_message\<rparr>
   \<and> storage (fetchTasks stringify Rejected written w) = storage w
   \<and> cache_writes (fetchTasks stringify Rejected written w) = cache_writes w"
  by (simp add: fetchTasks_defs updaters Let_def cache_writes_def)

text \<open>
  In every transition of a run, raising \<open>loading\<close> or \<open>refreshing\<close> comes with \<open>error\<close> reset
  to \<^verbatim>\<open>null\<close>, and the only transition that stores a new message is the \<^verbatim>\<open>catch\<close> block of
  \<^verbatim>\<open>fetchTasks\<close>.
\<close>

lemma transitions_fetchTasks:
  assumes "(a, b) \<in> set (transitions w (fetchTasks_trace stringify response written w))"
  shows "((\<not> loading (ui a) \<and> loading (ui b)) \<or> (\<not> refreshing (ui a) \<and> refreshing (ui b))
           \<longrightarrow> error (ui b) = None)
         \<and> (error (ui b) \<noteq> None \<and> error (ui b) \<noteq> error (ui a) \<longrightarrow> b = fetchTasks_catch a)"
  using assms
  by (cases response; cases written)
     (auto simp add: transitions_def fetchTasks_defs updaters Let_def)

lemma transitions_handleRefresh:
  assumes "(a, b) \<in> set (transitions w (handleRefresh_trace stringify response written w))"
  shows "((\<not> loading (ui a) \<and> loading (ui b)) \<or> (\<not> refreshing (ui a) \<and> refreshing (ui b))
           \<longrightarrow> error (ui b) = None)
         \<and> (error (ui b) \<noteq> None \<and> error (ui b) \<noteq> error (ui a) \<longrightarrow> b = fetchTasks_catch a)"
  using assms
  by (cases response; cases written)
     (auto simp add: transitions_def handleRefresh_trace_def fetchTasks_defs updaters Let_def)

lemma transitions_loadStoredTasks:
  assumes "loadStoredTasks_trace parse stringify readable response written w = Inr tr"
    and "(a, b) \<in> set (transitions w tr)"
  shows "((\<not> loading (ui a) \<and> loading (ui b)) \<or> (\<not> refreshing (ui a) \<and> refreshing (ui b))
           \<longrightarrow> error (ui b) = None)
         \<and> (error (ui b) \<noteq> None \<and> error (ui b) \<noteq> error (ui a) \<longrightarrow> b = fetchTasks_catch a)"
  using assms
  by (cases response; cases written)
     (auto simp add: transitions_def loadStoredTasks_trace_def getItem_def fetchTasks_defs
        updaters Let_def split: if_splits option.splits)

text \<open>
  The only strings a run stores in \<open>error\<close> are the fixed message, which is not empty; on a
  state with such an \<open>error\<close> the truthiness test of the view is the test for \<^verbatim>\<open>null\<close>.
\<close>

lemma error_of_fetchTasks:
  "x \<in> set (fetchTasks_trace stringify response written w) \<Longrightarrow>
     error (ui x) = None \<or> error (ui x) = Some load_error_message"
  by (cases response; cases written) (auto simp add: fetchTasks_defs updaters Let_def)

lemma error_of_handleRefresh:
  "x \<in> set (handleRefresh_trace stringify response written w) \<Longrightarrow>
     error (ui x) = None \<or> error (ui x) = Some load_error_message"
  by (cases response; cases written)
     (auto simp add: handleRefresh_trace_def fetchTasks_defs updaters Let_def)

lemma error_of_loadStoredTasks:
  "loadStoredTasks_trace parse stringify readable response written w = Inr tr \<Longrightarrow>
   error (ui w) = None \<or> error (ui w) = Some load_error_message \<Longrightarrow> x \<in> set tr \<Longrightarrow>
     error (ui x) = None \<or> error (ui x) = Some load_error_message"
  by (cases response; cases written)
     (auto simp add: loadStoredTasks_trace_def getItem_def fetchTasks_defs updaters Let_def
        split: if_splits option.splits)

lemma render_of_stored_error:
  "error s = None \<or> error s = Some load_error_message \<Longrightarrow>
     render s =
       (if loading s \<and> \<not> refreshing s then FULL_LOADING
        else if error s \<noteq> None then ERROR load_error_message
        else if loading s \<and> refreshing s then SKELETON
        else LIST (filteredTasks s))"
  by (auto simp add: render_def truthy_def load_error_message_def)

text \<open>The startup effect of \<^verbatim>\<open>App.tsx\<close> sends one request whatever the world is, and writes nothing.\<close>

lemma loadTasks_always_fetches:
  "remote_calls (last (loadTasks_trace response w)) = Suc (remote_calls w)
   \<and> storage (last (loadTasks_trace response w)) = storage w
   \<and> cache_writes (last (loadTasks_trace response w)) = cache_writes w"
  by (cases response)
     (simp_all add: loadTasks_trace_def App_tsx_fetchTasks_trace_def fetchTasks_begin_def
        fetchTasks_catch_def updaters Let_def remote_calls_def cache_writes_def)

section \<open>The view's choice of render mode\<close>

text \<open>
  On any value of the state type the view follows its three tests in order; the second one
  is a truthiness test.
\<close>

lemma render_any_state:
  "render s =
     (if loading s \<and> \<not> refreshing s then FULL_LOADING
      else if error s \<noteq> None \<and> error s \<noteq> Some [] then ERROR (the (error s))
      else if loading s \<and> refreshing s then SKELETON
      else LIST (filteredTasks s))"
  by (simp add: render_def truthy_def split: option.splits)




text \<open>Each of the four modes is the view of a state the component can hold.\<close>

lemma render_reaches_every_mode:
  "render (run_updates [] initialState) = FULL_LOADING
   \<and> render (run_updates [FetchStart, FetchFailure] initialState) = ERROR load_error_message
   \<and> render (run_updates [FetchStart, FetchSuccess [], RefreshStart, FetchStart] initialState)
       = SKELETON
   \<and> render (run_updates [StoredReset, StoredHit [task_bills]] initialState) = LIST [task_bills]"
  by (simp add: initialState_def updaters render_def truthy_def load_error_message_def
      filteredTasks_def)


section \<open>fetchTasks and the write to the store\<close>

text \<open>
  C2 says that a failed write to the store leaves \<open>error\<close> at \<^verbatim>\<open>null\<close>. In every run of
  \<^verbatim>\<open>fetchTasks\<close> in which the request succeeds and the write is rejected, the tasks are the
  returned collection and \<open>loading\<close> is false, but \<open>error\<close> holds the message of a failed load
  and the view shows the error screen instead of the tasks.
\<close>

theorem fetchTasks_write_failure_sets_error:
  "tasks (ui (fetchTasks stringify (Resolved data) Rejected w)) = data
   \<and> loading (ui (fetchTasks stringify (Resolved data) Rejected w)) = False
   \<and> error (ui (fetchTasks stringify (Resolved data) Rejected w)) = Some load_error_message
   \<and> render (ui (fetchTasks stringify (Resolved data) Rejected w)) = ERROR load_error_message
   \<and> effects (fetchTasks stringify (Resolved data) Rejected w) =
       effects w @ [AxiosGet tasks_url, SetItem ''tasks'' (stringify data),
                    ConsoleError ''Error fetching tasks:'']"
  by (simp add: fetchTasks_defs updaters Let_def render_def load_error_message_truthy)

section \<open>Startup with a stored value\<close>

text \<open>
  C3: if the read of the store resolves to a stored string that \<^verbatim>\<open>JSON.parse\<close> turns into a
  task list, the run of \<^verbatim>\<open>loadStoredTasks\<close> ends with \<open>tasks\<close> equal to that list and \<open>loading\<close>
  and \<open>refreshing\<close> false, and in every world of the run the only call made is the read: no
  request is sent to the remote service, whatever it would have answered.
\<close>

theorem loadStoredTasks_cache_hit:
  assumes "storage w ''tasks'' = Some stored" and "stored \<noteq> []"
    and "parse stored = Some cached"
  shows "\<exists>tr. loadStoredTasks_trace parse stringify True response written w = Inr tr
           \<and> tasks (ui (last tr)) = cached
           \<and> loading (ui (last tr)) = False
           \<and> refreshing (ui (last tr)) = False
           \<and> (\<forall>x \<in> set tr. effects x = effects w @ [GetItem ''tasks''])
           \<and> (\<forall>x \<in> set tr. remote_calls x = remote_calls w)"
  using assms
  by (simp add: loadStoredTasks_trace_def getItem_def truthy_def updaters Let_def
      remote_calls_def)

theorem loadStoredTasks_cache_hit_witness:
  "storage startup_cached ''tasks'' = Some ''[bills]'' \<and> ''[bills]'' \<noteq> []
   \<and> parse_example ''[bills]'' = Some [task_bills]
   \<and> (\<exists>tr. loadStoredTasks_trace parse_example stringify_example True
               (Resolved [task_milk]) (Resolved ()) startup_cached = Inr tr
         \<and> tasks (ui (last tr)) = [task_bills]
         \<and> loading (ui (last tr)) = False
         \<and> refreshing (ui (last tr)) = False
         \<and> (\<forall>x \<in> set tr. effects x = [GetItem ''tasks''])
         \<and> (\<forall>x \<in> set tr. remote_calls x = 0))"
proof -
  have stored: "storage startup_cached ''tasks'' = Some ''[bills]''"
    by (simp add: startup_cached_def)
  have nonempty: "''[bills]'' \<noteq> []"
    by simp
  have parsed: "parse_example ''[bills]'' = Some [task_bills]"
    by (simp add: parse_example_def)
  have start: "effects startup_cached = []" "remote_calls startup_cached = 0"
    by (simp_all add: startup_cached_def remote_calls_def)
  show ?thesis
    using loadStoredTasks_cache_hit [of startup_cached "''[bills]''" parse_example "[task_bills]"
        stringify_example "Resolved [task_milk]" "Resolved ()"]
    by (simp add: stored parsed start)
qed

section \<open>The transition that stores an error\<close>

text \<open>
  C4 says that \<open>error\<close> becomes non-null only when a fetch attempt has failed. In the run of
  \<^verbatim>\<open>fetchTasks\<close> in which the request succeeds and the write is rejected there is a transition
  from a world that holds the returned tasks with \<open>error\<close> at \<^verbatim>\<open>null\<close> to a world whose \<open>error\<close> is
  the message, although the request did not fail.
\<close>

theorem fetchTasks_error_after_successful_request:
  "\<exists>w1 w2 w3. fetchTasks_trace stringify (Resolved data) Rejected w = [w1, w2, w3]
     \<and> loading (ui w1) = True \<and> error (ui w1) = None
     \<and> tasks (ui w2) = data \<and> error (ui w2) = None
     \<and> w3 = fetchTasks_catch w2
     \<and> error (ui w3) = Some load_error_message"
  by (simp add: fetchTasks_defs updaters Let_def)

section \<open>Refresh\<close>

text \<open>
  C5: every run of \<^verbatim>\<open>handleRefresh\<close> is a run of \<^verbatim>\<open>fetchTasks\<close> from the state with \<open>refreshing\<close>
  set, followed by one more transition; \<open>refreshing\<close> is true in every world of the run but
  the last and false in the last, whether the request succeeded or not; exactly one request
  is sent; and when the request fails, the tasks at the end are the tasks from before the
  refresh and \<open>error\<close> is the fixed message.
\<close>

theorem handleRefresh_resets_refreshing:
  "butlast (handleRefresh_trace stringify response written w) =
     fetchTasks_trace stringify response written (w\<lparr>ui := refresh_start (ui w)\<rparr>)
   \<and> (\<forall>x \<in> set (butlast (handleRefresh_trace stringify response written w)).
         refreshing (ui x) = True)
   \<and> refreshing (ui (handleRefresh stringify response written w)) = False
   \<and> remote_calls (handleRefresh stringify response written w) = Suc (remote_calls w)
   \<and> (response = Rejected \<longrightarrow>
         tasks (ui (handleRefresh stringify response written w)) = tasks (ui w)
         \<and> error (ui (handleRefresh stringify response written w)) = Some load_error_message)"
  by (cases response; cases written)
     (simp_all add: handleRefresh_def handleRefresh_trace_def fetchTasks_defs updaters
        Let_def remote_calls_def)

theorem handleRefresh_resets_refreshing_witness:
  "refreshing (ui (fetchTasks_begin (showing_bills\<lparr>ui := refresh_start (ui showing_bills)\<rparr>))) = True
   \<and> refreshing (ui (handleRefresh stringify_example Rejected (Resolved ()) showing_bills)) = False
   \<and> remote_calls (handleRefresh stringify_example Rejected (Resolved ()) showing_bills) = 1
   \<and> tasks (ui (handleRefresh stringify_example Rejected (Resolved ()) showing_bills)) = [task_bills]
   \<and> error (ui (handleRefresh stringify_example Rejected (Resolved ()) showing_bills))
       = Some load_error_message"
proof -
  have first: "fetchTasks_begin (showing_bills\<lparr>ui := refresh_start (ui showing_bills)\<rparr>)
      \<in> set (fetchTasks_trace stringify_example Rejected (Resolved ())
               (showing_bills\<lparr>ui := refresh_start (ui showing_bills)\<rparr>))"
    by (simp add: fetchTasks_trace_def Let_def)
  have start: "remote_calls showing_bills = 0" "tasks (ui showing_bills) = [task_bills]"
    by (simp_all add: showing_bills_def remote_calls_def)
  show ?thesis
    using handleRefresh_resets_refreshing [of stringify_example Rejected "Resolved ()" showing_bills]
      first
    by (simp add: start)
qed

section \<open>Startup without a stored value\<close>

text \<open>
  If the read of the store is rejected, or resolves to \<^verbatim>\<open>null\<close> because nothing is stored,
  the run of \<^verbatim>\<open>loadStoredTasks\<close> sends exactly one request to the remote service; and when the
  request succeeds, the run hands the serialised collection to the store once, and the store
  holds it at the end if that write succeeds.
\<close>

lemma loadStoredTasks_cache_miss:
  assumes "\<not> readable \<or> storage w ''tasks'' = None"
  shows "\<exists>tr. loadStoredTasks_trace parse stringify readable response written w = Inr tr
           \<and> remote_calls (last tr) = Suc (remote_calls w)
           \<and> (\<forall>data. response = Resolved data \<longrightarrow>
                 cache_writes (last tr) = cache_writes w @ [stringify data]
                 \<and> (written = Resolved () \<longrightarrow>
                      storage (last tr) ''tasks'' = Some (stringify data)))"
  using assms
  by (cases response; cases written)
     (auto simp add: loadStoredTasks_trace_def getItem_def truthy_def fetchTasks_defs
        updaters Let_def remote_calls_def cache_writes_def)

lemma loadStoredTasks_cache_miss_example:
  "storage startup ''tasks'' = None
   \<and> (\<exists>tr. loadStoredTasks_trace parse_example stringify_example True
               (Resolved [task_milk]) (Resolved ()) startup = Inr tr
         \<and> remote_calls (last tr) = 1
         \<and> cache_writes (last tr) = [''[milk]'']
         \<and> storage (last tr) ''tasks'' = Some ''[milk]'')
   \<and> (\<exists>tr. loadStoredTasks_trace parse_example stringify_example False
               (Resolved [task_milk]) (Resolved ()) startup_cached = Inr tr
         \<and> remote_calls (last tr) = 1
         \<and> cache_writes (last tr) = [''[milk]'']
         \<and> storage (last tr) ''tasks'' = Some ''[milk]'')"
proof -
  have empty: "storage startup ''tasks'' = None"
    by (simp add: startup_def)
  have start: "remote_calls startup = 0" "cache_writes startup = []"
    "remote_calls startup_cached = 0" "cache_writes startup_cached = []"
    by (simp_all add: startup_def startup_cached_def remote_calls_def cache_writes_def)
  have str: "stringify_example [task_milk] = ''[milk]''"
    by (simp add: stringify_example_def)
  show ?thesis
    using loadStoredTasks_cache_miss [of True startup parse_example stringify_example
        "Resolved [task_milk]" "Resolved ()"]
      loadStoredTasks_cache_miss [of False startup_cached parse_example stringify_example
        "Resolved [task_milk]" "Resolved ()"]
    by (simp add: start str empty)
qed

text \<open>
  A stored string that \<^verbatim>\<open>JSON.parse\<close> rejects is the third way the read can fail. There the
  run does not reach \<^verbatim>\<open>fetchTasks\<close>: it ends in the updater, whatever the remote service would
  have answered.
\<close>

lemma loadStoredTasks_unparsable:
  assumes "storage w ''tasks'' = Some stored" and "stored \<noteq> []" and "parse stored = None"
  shows "loadStoredTasks_trace parse stringify True response written w = Inl UpdaterThrew"
  using assms
  by (simp add: loadStoredTasks_trace_def getItem_def truthy_def Let_def)


section \<open>Filtering\<close>

text \<open>
  C7: with the filter ALL the visible tasks are the tasks; with COMPLETED they are exactly the
  tasks whose flag is set, with INCOMPLETE exactly those whose flag is not set, both in the
  order of the collection (each is a subsequence of it); the two parts have no task in
  common and together hold exactly the tasks of the collection, as sets and counting
  repetitions.
\<close>

theorem filteredTasks_partition:
  "filteredTasks (s\<lparr>filter' := FILTER_ALL\<rparr>) = tasks s
   \<and> filteredTasks (s\<lparr>filter' := FILTER_COMPLETED\<rparr>) = filter completed (tasks s)
   \<and> filteredTasks (s\<lparr>filter' := FILTER_INCOMPLETE\<rparr>) = filter (\<lambda>t. \<not> completed t) (tasks s)
   \<and> subseq (filteredTasks (s\<lparr>filter' := FILTER_COMPLETED\<rparr>)) (tasks s)
   \<and> subseq (filteredTasks (s\<lparr>filter' := FILTER_INCOMPLETE\<rparr>)) (tasks s)
   \<and> set (filteredTasks (s\<lparr>filter' := FILTER_COMPLETED\<rparr>))
       \<union> set (filteredTasks (s\<lparr>filter' := FILTER_INCOMPLETE\<rparr>)) = set (tasks s)
   \<and> set (filteredTasks (s\<lparr>filter' := FILTER_COMPLETED\<rparr>))
       \<inter> set (filteredTasks (s\<lparr>filter' := FILTER_INCOMPLETE\<rparr>)) = {}
   \<and> mset (filteredTasks (s\<lparr>filter' := FILTER_COMPLETED\<rparr>))
       + mset (filteredTasks (s\<lparr>filter' := FILTER_INCOMPLETE\<rparr>)) = mset (tasks s)"
proof -
  have f_all: "filteredTasks (s\<lparr>filter' := FILTER_ALL\<rparr>) = tasks s"
    by (simp add: filteredTasks_def)
  have f_done: "filteredTasks (s\<lparr>filter' := FILTER_COMPLETED\<rparr>) = filter completed (tasks s)"
    by (simp add: filteredTasks_def)
  have f_todo: "filteredTasks (s\<lparr>filter' := FILTER_INCOMPLETE\<rparr>)
      = filter (\<lambda>t. \<not> completed t) (tasks s)"
    by (simp add: filteredTasks_def)
  have union: "set (filter completed (tasks s)) \<union> set (filter (\<lambda>t. \<not> completed t) (tasks s))
      = set (tasks s)"
    by auto
  have disjoint: "set (filter completed (tasks s)) \<inter> set (filter (\<lambda>t. \<not> completed t) (tasks s))
      = {}"
    by auto
  have count: "mset (filter completed (tasks s)) + mset (filter (\<lambda>t. \<not> completed t) (tasks s))
      = mset (tasks s)"
    by simp
  show ?thesis
    unfolding f_all f_done f_todo using union disjoint count by simp
qed

section \<open>Toggling a task\<close>

text \<open>
  C8: for every state and every id, toggling the id twice gives back the state, so every
  task has its original flag; and toggling an id that no task carries leaves the state as
  it is.
\<close>

theorem toggleComplete_involution:
  "toggleComplete i (toggleComplete i s) = s
   \<and> (i \<notin> id' ` set (tasks s) \<longrightarrow> toggleComplete i s = s)"
proof
  have "map ((\<lambda>task. if id' task = i then task\<lparr>completed := \<not> completed task\<rparr> else task)
          \<circ> (\<lambda>task. if id' task = i then task\<lparr>completed := \<not> completed task\<rparr> else task))
          (tasks s) = tasks s"
    by (rule map_idI) simp
  then show "toggleComplete i (toggleComplete i s) = s"
    by (simp add: toggleComplete_def)
next
  show "i \<notin> id' ` set (tasks s) \<longrightarrow> toggleComplete i s = s"
  proof
    assume absent: "i \<notin> id' ` set (tasks s)"
    have "map (\<lambda>task. if id' task = i then task\<lparr>completed := \<not> completed task\<rparr> else task)
            (tasks s) = tasks s"
      by (rule map_idI) (use absent in auto)
    then show "toggleComplete i s = s"
      by (simp add: toggleComplete_def)
  qed
qed

theorem toggleComplete_involution_witness:
  "7 \<notin> id' ` set (tasks (ui showing_bills))
   \<and> toggleComplete 7 (ui showing_bills) = ui showing_bills
   \<and> toggleComplete 7 (toggleComplete 7 (ui showing_bills)) = ui showing_bills"
proof -
  have absent: "7 \<notin> id' ` set (tasks (ui showing_bills))"
    by (simp add: showing_bills_def task_bills_def)
  show ?thesis
    using toggleComplete_involution [of 7 "ui showing_bills"] absent by simp
qed

text \<open>
  C9: toggling keeps the number and the positions of the tasks; at every position the id and
  the title are unchanged, the flag is negated if the id matches and unchanged otherwise, and
  a task with another id is the same task; the fields \<open>loading\<close>, \<open>refreshing\<close>, \<open>error\<close> and
  \<open>filter\<close> of the state are unchanged.
\<close>

theorem toggleComplete_frame:
  "length (tasks (toggleComplete i s)) = length (tasks s)
   \<and> (\<forall>k < length (tasks s).
         id' (tasks (toggleComplete i s) ! k) = id' (tasks s ! k)
         \<and> title (tasks (toggleComplete i s) ! k) = title (tasks s ! k)
         \<and> completed (tasks (toggleComplete i s) ! k) =
             (if id' (tasks s ! k) = i then \<not> completed (tasks s ! k)
              else completed (tasks s ! k))
         \<and> (id' (tasks s ! k) \<noteq> i \<longrightarrow> tasks (toggleComplete i s) ! k = tasks s ! k))
   \<and> loading (toggleComplete i s) = loading s
   \<and> refreshing (toggleComplete i s) = refreshing s
   \<and> error (toggleComplete i s) = error s
   \<and> filter' (toggleComplete i s) = filter' s"
  by (simp add: toggleComplete_def)

theorem toggleComplete_frame_witness:
  "(1::nat) < length (tasks \<lparr>tasks = [task_milk, task_bills], loading = False, error = None,
        refreshing = False, filter' = FILTER_ALL\<rparr>)
   \<and> tasks (toggleComplete 2 \<lparr>tasks = [task_milk, task_bills], loading = False, error = None,
        refreshing = False, filter' = FILTER_ALL\<rparr>) ! 0 = task_milk
   \<and> id' (tasks (toggleComplete 2 \<lparr>tasks = [task_milk, task_bills], loading = False,
        error = None, refreshing = False, filter' = FILTER_ALL\<rparr>) ! 1) = 2
   \<and> title (tasks (toggleComplete 2 \<lparr>tasks = [task_milk, task_bills], loading = False,
        error = None, refreshing = False, filter' = FILTER_ALL\<rparr>) ! 1) = ''Pay bills''
   \<and> completed (tasks (toggleComplete 2 \<lparr>tasks = [task_milk, task_bills], loading = False,
        error = None, refreshing = False, filter' = FILTER_ALL\<rparr>) ! 1) = False"
proof -
  have ids: "id' task_milk = 1" "id' task_bills = 2" "title task_bills = ''Pay bills''"
    "completed task_bills = True"
    by (simp_all add: task_milk_def task_bills_def)
  show ?thesis
    using toggleComplete_frame [of 2 "\<lparr>tasks = [task_milk, task_bills], loading = False,
        error = None, refreshing = False, filter' = FILTER_ALL\<rparr>"]
    by (simp add: All_less_Suc ids)
qed

section \<open>Choosing a filter\<close>

text \<open>
  C10: pressing any of the three filter buttons stores that filter and leaves \<open>tasks\<close>,
  \<open>loading\<close>, \<open>refreshing\<close> and \<open>error\<close> as they were.
\<close>

theorem onPressFilter_frame:
  "filter' (onPressFilter f s) = f
   \<and> tasks (onPressFilter f s) = tasks s
   \<and> loading (onPressFilter f s) = loading s
   \<and> refreshing (onPressFilter f s) = refreshing s
   \<and> error (onPressFilter f s) = error s"
  by (cases f) simp_all

end
